theory Spec2Isabelle
  imports Complex_Main "HOL-Library.Finite_Map"
begin

section \<open>Dynamics-model training loop of machina (\<^verbatim>\<open>machina/algos/mpc.py\<close>)\<close>

text \<open>
  The module holds two functions, \<^verbatim>\<open>update_dm\<close> (one optimisation step) and
  \<^verbatim>\<open>train_dm\<close> (the loop over epochs and batches). Everything they call lives outside
  the file: the loss functional \<^verbatim>\<open>lf.dynamics\<close>, the optimiser, the trajectory sources,
  the logger and \<^verbatim>\<open>torch.cat\<close>. The embedding takes these collaborators as parameters
  acting on an abstract world state \<open>'w\<close> (model weights, optimiser state, random
  number generator, log), and writes every exception as a value of a sum type.
\<close>

subsection \<open>Exceptions\<close>

text \<open>
  The built-in exceptions the two functions can raise by themselves, and \<open>Raised x\<close>
  for an exception that comes out of a collaborator, \<open>x\<close> being its text.
\<close>

datatype pyerr =
    ZeroDivisionError
  | KeyError string
  | ValueError
  | OverflowError
  | RuntimeError
  | Raised string

subsection \<open>Python floats: \<^verbatim>\<open>int(batch_size * rl_batch_rate)\<close>\<close>

text \<open>
  \<^verbatim>\<open>rl_batch_rate\<close> is a Python float, an IEEE 754 binary64 number. \<open>Finite m e\<close>
  stands for the number \<open>m * 2 ^ e\<close> (a double when \<open>\<bar>m\<bar> < 2 ^ 53\<close> and
  \<open>- 1074 \<le> e\<close> and the magnitude is below \<open>2 ^ 1024\<close>), \<open>Infinite neg\<close> for the two
  infinities and \<open>NaN\<close> for not-a-number. The sign of a zero is not kept: no operation
  used here depends on it.
\<close>

datatype pyfloat = Finite int int | Infinite bool | NaN

text \<open>\<^verbatim>\<open>int.bit_length()\<close> of a natural number.\<close>

fun bit_length :: "nat \<Rightarrow> nat" where
  "bit_length n = (if n = 0 then 0 else Suc (bit_length (n div 2)))"

declare bit_length.simps [simp del]

text \<open>
  Dropping the \<open>k\<close> low bits of \<open>m\<close>, rounding to nearest with ties to even
  (the rounding mode of Python's float arithmetic).
\<close>

definition round_half_even :: "int \<Rightarrow> nat \<Rightarrow> int" where
  "round_half_even m k =
     (if k = 0 then m
      else let q = m div 2 ^ k; r = m mod 2 ^ k; h = 2 ^ (k - 1)
           in if h < r \<or> (r = h \<and> odd q) then q + 1 else q)"

text \<open>
  The double nearest to the exact number \<open>m * 2 ^ e\<close>: at most 53 significant bits,
  no bit below \<open>2 ^ (- 1074)\<close> (gradual underflow), and an infinity when the rounded
  magnitude reaches \<open>2 ^ 1024\<close>.
\<close>

definition to_double :: "int \<Rightarrow> int \<Rightarrow> pyfloat" where
  "to_double m e =
     (let k = nat (max (int (bit_length (nat \<bar>m\<bar>)) - 53) (- 1074 - e));
          m' = round_half_even m k;
          e' = e + int k
      in if 1024 < int (bit_length (nat \<bar>m'\<bar>)) + e' then Infinite (m' < 0)
         else Finite m' e')"

text \<open>Float multiplication \<^verbatim>\<open>x * y\<close>.\<close>

fun float_mul :: "pyfloat \<Rightarrow> pyfloat \<Rightarrow> pyfloat" where
  "float_mul NaN y = NaN"
| "float_mul x NaN = NaN"
| "float_mul (Finite a ea) (Finite b eb) = to_double (a * b) (ea + eb)"
| "float_mul (Finite a ea) (Infinite s) = (if a = 0 then NaN else Infinite (s \<noteq> (a < 0)))"
| "float_mul (Infinite s) (Finite b eb) = (if b = 0 then NaN else Infinite (s \<noteq> (b < 0)))"
| "float_mul (Infinite s) (Infinite t) = Infinite (s \<noteq> t)"

text \<open>
  The conversion of an int operand to float in a mixed product: an int too large for a
  double raises \<^verbatim>\<open>OverflowError\<close>.
\<close>

definition float_of_int :: "int \<Rightarrow> pyerr + pyfloat" where
  "float_of_int n =
     (case to_double n 0 of
        Finite m e \<Rightarrow> Inr (Finite m e)
      | Infinite s \<Rightarrow> Inl OverflowError
      | NaN \<Rightarrow> Inl OverflowError)"

text \<open>\<^verbatim>\<open>n * x\<close> for an int \<open>n\<close> and a float \<open>x\<close>.\<close>

definition int_times_float :: "int \<Rightarrow> pyfloat \<Rightarrow> pyerr + pyfloat" where
  "int_times_float n x =
     (case float_of_int n of
        Inl err \<Rightarrow> Inl err
      | Inr f \<Rightarrow> Inr (float_mul f x))"

text \<open>
  \<^verbatim>\<open>int(x)\<close> of a float: truncation towards zero; \<^verbatim>\<open>OverflowError\<close> on an infinity,
  \<^verbatim>\<open>ValueError\<close> on a NaN.
\<close>

fun py_int :: "pyfloat \<Rightarrow> pyerr + int" where
  "py_int (Finite m e) =
     Inr (if 0 \<le> e then m * 2 ^ nat e else sgn m * (\<bar>m\<bar> div 2 ^ nat (- e)))"
| "py_int (Infinite s) = Inl OverflowError"
| "py_int NaN = Inl ValueError"

text \<open>The real number a finite float stands for, and truncation of a real towards zero.\<close>

fun float_val :: "pyfloat \<Rightarrow> real" where
  "float_val (Finite m e) = of_int m * 2 powr of_int e"
| "float_val (Infinite s) = 0"
| "float_val NaN = 0"

fun is_finite :: "pyfloat \<Rightarrow> bool" where
  "is_finite (Finite m e) = True"
| "is_finite (Infinite s) = False"
| "is_finite NaN = False"

definition truncate_real :: "real \<Rightarrow> int" where
  "truncate_real x = (if 0 \<le> x then \<lfloor>x\<rfloor> else \<lceil>x\<rceil>)"

text \<open>
  The float literals \<^verbatim>\<open>0.9\<close> (the default rate, \<^verbatim>\<open>0x1.ccccccccccccdp-1\<close>),
  \<^verbatim>\<open>0.33\<close> (\<^verbatim>\<open>0x1.51eb851eb851fp-2\<close>) and \<^verbatim>\<open>0.7\<close> (\<^verbatim>\<open>0x1.6666666666666p-1\<close>).
\<close>

definition rate_0_9 :: pyfloat where
  "rate_0_9 = Finite 8106479329266893 (- 53)"

definition rate_0_33 :: pyfloat where
  "rate_0_33 = Finite 5944751508129055 (- 54)"

definition rate_0_7 :: pyfloat where
  "rate_0_7 = Finite 3152519739159347 (- 52)"

subsection \<open>Lines 53--54 of \<^verbatim>\<open>train_dm\<close>: the sub-batch sizes\<close>

text \<open>
  \<^verbatim>\<open>batch_size_rl = int(batch_size * rl_batch_rate)\<close> and
  \<^verbatim>\<open>batch_size_rand = batch_size - batch_size_rl\<close>; the pair is
  \<open>(batch_size_rl, batch_size_rand)\<close>.
\<close>

definition batch_sizes :: "int \<Rightarrow> pyfloat \<Rightarrow> pyerr + (int \<times> int)" where
  "batch_sizes batch_size rl_batch_rate =
     (case int_times_float batch_size rl_batch_rate of
        Inl err \<Rightarrow> Inl err
      | Inr p \<Rightarrow>
          (case py_int p of
             Inl err \<Rightarrow> Inl err
           | Inr batch_size_rl \<Rightarrow> Inr (batch_size_rl, batch_size - batch_size_rl)))"

text \<open>Python's \<^verbatim>\<open>a // b\<close> on ints: floor division, \<^verbatim>\<open>ZeroDivisionError\<close> when \<open>b = 0\<close>.\<close>

definition py_floordiv :: "int \<Rightarrow> int \<Rightarrow> pyerr + int" where
  "py_floordiv a b = (if b = 0 then Inl ZeroDivisionError else Inr (a div b))"

subsection \<open>Sequencing of calls that may raise\<close>

text \<open>
  \<open>bind_err r f\<close> runs \<open>f\<close> on the result of \<open>r\<close>, unless \<open>r\<close> raised: then the
  exception is the result and \<open>f\<close> is not run. Python's statement sequencing without
  any \<^verbatim>\<open>try\<close>.
\<close>

definition bind_err :: "'e + 'a \<Rightarrow> ('a \<Rightarrow> 'e + 'b) \<Rightarrow> 'e + 'b" where
  "bind_err r f = (case r of Inl err \<Rightarrow> Inl err | Inr x \<Rightarrow> f x)"

subsection \<open>Tensors and batches\<close>

text \<open>
  A tensor of shape \<open>(n, d\<^sub>1, \<dots>, d\<^sub>k)\<close> is the list of its \<open>n\<close> samples along
  dimension 0 (\<open>rows\<close>) together with the shape \<open>[d\<^sub>1, \<dots>, d\<^sub>k]\<close> of one sample
  (\<open>feat\<close>). The type \<open>'a\<close> of a sample is left open.
\<close>

record 'a tensor =
  feat :: "nat list"
  rows :: "'a list"

text \<open>
  \<^verbatim>\<open>torch.cat([a, b], dim=0)\<close>, a function of the tensor library: the samples of \<open>a\<close>
  followed by those of \<open>b\<close>. The shapes must agree in every dimension but the
  first, otherwise the call raises \<^verbatim>\<open>RuntimeError\<close>; an empty one-dimensional tensor
  (shape \<open>(0,)\<close>) is skipped whatever the shape of the other.
\<close>

definition torch_cat :: "'a tensor \<Rightarrow> 'a tensor \<Rightarrow> pyerr + 'a tensor" where
  "torch_cat a b =
     (if feat a = [] \<and> rows a = [] then Inr b
      else if feat b = [] \<and> rows b = [] then Inr a
      else if feat a = feat b then Inr \<lparr>feat = feat a, rows = rows a @ rows b\<rparr>
      else Inl RuntimeError)"

text \<open>
  A batch is a dict from field names to tensors. \<^verbatim>\<open>len(batch)\<close> is the number of
  its keys, and \<^verbatim>\<open>batch[k]\<close> raises \<^verbatim>\<open>KeyError\<close> on a missing key.
\<close>

type_synonym 'a batch = "(string, 'a tensor) fmap"

definition py_len :: "('k, 'v) fmap \<Rightarrow> nat" where
  "py_len d = fcard (fmdom d)"

definition py_getitem :: "(string, 'v) fmap \<Rightarrow> string \<Rightarrow> pyerr + 'v" where
  "py_getitem d k = (case fmlookup d k of None \<Rightarrow> Inl (KeyError k) | Some v \<Rightarrow> Inr v)"

subsection \<open>Lines 65--80 of \<^verbatim>\<open>train_dm\<close>: the merged batch\<close>

text \<open>
  The three assignments of lines 67--69 (and 71--73): the fields \<^verbatim>\<open>obs\<close>, \<^verbatim>\<open>acs\<close>
  and \<^verbatim>\<open>next_obs\<close> of one source's batch, stored in a fresh dict.
\<close>

definition pass_fields :: "'a batch \<Rightarrow> pyerr + 'a batch" where
  "pass_fields src =
     bind_err (py_getitem src ''obs'') (\<lambda>obs.
     bind_err (py_getitem src ''acs'') (\<lambda>acs.
     bind_err (py_getitem src ''next_obs'') (\<lambda>next_obs.
       Inr (fmupd ''next_obs'' next_obs (fmupd ''acs'' acs (fmupd ''obs'' obs fmempty))))))"

text \<open>\<^verbatim>\<open>torch.cat([rand_batch[k], rl_batch[k]], dim=0)\<close>.\<close>

definition cat_field :: "'a batch \<Rightarrow> 'a batch \<Rightarrow> string \<Rightarrow> pyerr + 'a tensor" where
  "cat_field rand_batch rl_batch k =
     bind_err (py_getitem rand_batch k) (\<lambda>a.
     bind_err (py_getitem rl_batch k) (\<lambda>b.
       torch_cat a b))"

definition merge_batch :: "'a batch \<Rightarrow> 'a batch \<Rightarrow> pyerr + 'a batch" where
  "merge_batch rl_batch rand_batch =
     (if py_len rl_batch = 0 then pass_fields rand_batch
      else if py_len rand_batch = 0 then pass_fields rl_batch
      else
        bind_err (cat_field rand_batch rl_batch ''obs'') (\<lambda>obs.
        bind_err (cat_field rand_batch rl_batch ''acs'') (\<lambda>acs.
        bind_err (cat_field rand_batch rl_batch ''next_obs'') (\<lambda>next_obs.
          Inr (fmupd ''next_obs'' next_obs (fmupd ''acs'' acs (fmupd ''obs'' obs fmempty)))))))"

text \<open>The key set of a merged batch.\<close>

definition merged_keys :: "string fset" where
  "merged_keys = {|''obs'', ''acs'', ''next_obs''|}"

text \<open>
  An empty drawn batch, as the specification speaks of it: a dict without keys (what lines
  66 and 70 test with \<^verbatim>\<open>len\<close>), or a dict whose three fields hold tensors without
  samples, of the sample shape of the \<open>other\<close> batch's fields (what indexing stored
  transitions with an empty index gives).
\<close>

definition no_samples :: "'a batch \<Rightarrow> 'a batch \<Rightarrow> bool" where
  "no_samples b other =
     (\<forall>k |\<in>| merged_keys.
        case fmlookup b k of
          None \<Rightarrow> False
        | Some t \<Rightarrow>
            rows t = [] \<and>
            (case fmlookup other k of None \<Rightarrow> False | Some u \<Rightarrow> feat t = feat u))"

definition empty_batch :: "'a batch \<Rightarrow> 'a batch \<Rightarrow> bool" where
  "empty_batch b other = (py_len b = 0 \<or> no_samples b other)"

subsection \<open>The collaborators\<close>

text \<open>
  The optimiser object with the two methods \<^verbatim>\<open>update_dm\<close> calls, and the loss tensor
  \<^verbatim>\<open>lf.dynamics\<close> returns, with \<^verbatim>\<open>backward()\<close> and the chain
  \<^verbatim>\<open>detach().cpu().numpy()\<close>. Each acts on the world state and may raise.
\<close>

record 'w optimizer =
  zero_grad :: "'w \<Rightarrow> pyerr + 'w"
  optim_step :: "'w \<Rightarrow> pyerr + 'w"

record ('w, 'v) loss_tensor =
  backward :: "'w \<Rightarrow> pyerr + 'w"
  detach_cpu_numpy :: "'w \<Rightarrow> pyerr + 'v"

text \<open>\<^verbatim>\<open>lf.dynamics(dm, batch, target=target, td=td)\<close>.\<close>

type_synonym ('a, 'dm, 'w, 'v) loss_functional =
  "'dm \<Rightarrow> 'a batch \<Rightarrow> string \<Rightarrow> bool \<Rightarrow> 'w \<Rightarrow> pyerr + (('w, 'v) loss_tensor \<times> 'w)"

text \<open>
  Modelled from the spec: the trajectory source (class \<^verbatim>\<open>Traj\<close>) is not part of the
  file. It exposes \<^verbatim>\<open>num_step\<close>, an int, and \<^verbatim>\<open>random_batch(batch_size, num_draws)\<close>,
  which gives a lazy, finite sequence of random batches: here the list of the draws,
  each run on the world state when the loop asks for the next batch, and each free to
  raise.
\<close>

type_synonym ('a, 'w) draw = "'w \<Rightarrow> pyerr + ('a batch \<times> 'w)"

record ('a, 'w) traj =
  num_step :: int
  random_batch :: "int \<Rightarrow> int \<Rightarrow> ('a, 'w) draw list"

subsection \<open>\<^verbatim>\<open>update_dm\<close>\<close>

definition update_dm ::
  "('a, 'dm, 'w, 'v) loss_functional \<Rightarrow> 'dm \<Rightarrow> 'w optimizer \<Rightarrow> 'a batch
     \<Rightarrow> string \<Rightarrow> bool \<Rightarrow> 'w \<Rightarrow> pyerr + ('v \<times> 'w)" where
  "update_dm lf_dynamics dm optim_dm batch target td w =
     bind_err (lf_dynamics dm batch target td w) (\<lambda>(dm_loss, w1).
     bind_err (zero_grad optim_dm w1) (\<lambda>w2.
     bind_err (backward dm_loss w2) (\<lambda>w3.
     bind_err (optim_step optim_dm w3) (\<lambda>w4.
     bind_err (detach_cpu_numpy dm_loss w4) (\<lambda>v.
       Inr (v, w4))))))"

subsection \<open>\<^verbatim>\<open>train_dm\<close>\<close>

text \<open>Lines 58--61: the number of steps per epoch.\<close>

definition steps_per_epoch ::
  "('a, 'w) traj \<Rightarrow> ('a, 'w) traj \<Rightarrow> int \<Rightarrow> int \<Rightarrow> pyerr + int" where
  "steps_per_epoch rl_traj rand_traj batch_size_rl batch_size_rand =
     (if 0 < batch_size_rand then py_floordiv (num_step rand_traj) batch_size_rand
      else py_floordiv (num_step rl_traj) batch_size_rl)"

text \<open>Lines 65--84: the body of the inner loop, for one pair of drawn batches.\<close>

definition train_step ::
  "('a, 'dm, 'w, 'v) loss_functional \<Rightarrow> 'dm \<Rightarrow> 'w optimizer \<Rightarrow> string \<Rightarrow> bool
     \<Rightarrow> 'a batch \<Rightarrow> 'a batch \<Rightarrow> 'w \<Rightarrow> pyerr + ('v \<times> 'w)" where
  "train_step lf_dynamics dyn_model optim_dm target td rl_batch rand_batch w =
     bind_err (merge_batch rl_batch rand_batch) (\<lambda>batch.
       update_dm lf_dynamics dyn_model optim_dm batch target td w)"

text \<open>
  Line 64: \<^verbatim>\<open>for rl_batch, rand_batch in zip(gen_rl, gen_rand)\<close>. \<^verbatim>\<open>zip\<close> asks the first
  generator for its next batch, then the second, and stops as soon as one of them is
  exhausted; the loss of each step is appended to \<open>dm_losses\<close>.
\<close>

fun for_zip ::
  "('b \<Rightarrow> 'b \<Rightarrow> 'w \<Rightarrow> 'e + ('v \<times> 'w)) \<Rightarrow> ('w \<Rightarrow> 'e + ('b \<times> 'w)) list
     \<Rightarrow> ('w \<Rightarrow> 'e + ('b \<times> 'w)) list \<Rightarrow> 'v list \<Rightarrow> 'w \<Rightarrow> 'e + ('v list \<times> 'w)" where
  "for_zip body [] gen_rand dm_losses w = Inr (dm_losses, w)"
| "for_zip body (g # gen_rl) [] dm_losses w =
     bind_err (g w) (\<lambda>(rl_batch, w1). Inr (dm_losses, w1))"
| "for_zip body (g # gen_rl) (h # gen_rand) dm_losses w =
     bind_err (g w) (\<lambda>(rl_batch, w1).
     bind_err (h w1) (\<lambda>(rand_batch, w2).
     bind_err (body rl_batch rand_batch w2) (\<lambda>(dm_loss, w3).
       for_zip body gen_rl gen_rand (dm_losses @ [dm_loss]) w3)))"

text \<open>Line 63: \<^verbatim>\<open>for e in range(epoch)\<close>, with the number of iterations left.\<close>

fun for_range ::
  "('v list \<Rightarrow> 'w \<Rightarrow> 'e + ('v list \<times> 'w)) \<Rightarrow> nat \<Rightarrow> 'v list \<Rightarrow> 'w \<Rightarrow> 'e + ('v list \<times> 'w)" where
  "for_range epoch_body 0 dm_losses w = Inr (dm_losses, w)"
| "for_range epoch_body (Suc n) dm_losses w =
     bind_err (epoch_body dm_losses w) (\<lambda>(dm_losses', w'). for_range epoch_body n dm_losses' w')"

text \<open>
  \<^verbatim>\<open>train_dm\<close>. \<^verbatim>\<open>range(epoch)\<close> has \<open>nat epoch\<close> elements (none for a negative
  \<open>epoch\<close>); \<open>logger_log\<close> is \<^verbatim>\<open>logger.log\<close>. The result is the dict
  \<^verbatim>\<open>dict(DynModelLoss=dm_losses)\<close>.
\<close>

definition train_dm ::
  "('a, 'dm, 'w, 'v) loss_functional \<Rightarrow> (string \<Rightarrow> 'w \<Rightarrow> pyerr + 'w)
     \<Rightarrow> ('a, 'w) traj \<Rightarrow> ('a, 'w) traj \<Rightarrow> 'dm \<Rightarrow> 'w optimizer
     \<Rightarrow> int \<Rightarrow> int \<Rightarrow> pyfloat \<Rightarrow> string \<Rightarrow> bool \<Rightarrow> 'w
     \<Rightarrow> pyerr + ((string, 'v list) fmap \<times> 'w)" where
  "train_dm lf_dynamics logger_log rl_traj rand_traj dyn_model optim_dm
       epoch batch_size rl_batch_rate target td w =
     bind_err (batch_sizes batch_size rl_batch_rate) (\<lambda>(batch_size_rl, batch_size_rand).
     bind_err (logger_log ''Optimizing...'' w) (\<lambda>w1.
     bind_err (steps_per_epoch rl_traj rand_traj batch_size_rl batch_size_rand) (\<lambda>step.
     bind_err (for_range
                (for_zip (train_step lf_dynamics dyn_model optim_dm target td)
                   (random_batch rl_traj batch_size_rl step)
                   (random_batch rand_traj batch_size_rand step))
                (nat epoch) [] w1) (\<lambda>(dm_losses, w2).
     bind_err (logger_log ''Optimization finished!'' w2) (\<lambda>w3.
       Inr (fmupd ''DynModelLoss'' dm_losses fmempty, w3))))))"

subsection \<open>Concrete inputs\<close>

text \<open>
  Batches of one-number samples, used to run the definitions on concrete inputs:
  \<open>ex_batch xs\<close> has exactly the three fields of a merged batch, and
  \<open>ex_traj_batch xs\<close> has a \<^verbatim>\<open>rews\<close> field as well, as a batch drawn from stored
  transitions does.
\<close>

definition ex_tensor :: "nat list \<Rightarrow> nat tensor" where
  "ex_tensor xs = \<lparr>feat = [1], rows = xs\<rparr>"

definition ex_batch :: "nat list \<Rightarrow> nat batch" where
  "ex_batch xs =
     fmupd ''next_obs'' (ex_tensor (map Suc xs))
       (fmupd ''acs'' (ex_tensor xs)
          (fmupd ''obs'' (ex_tensor xs) fmempty))"

definition ex_traj_batch :: "nat list \<Rightarrow> nat batch" where
  "ex_traj_batch xs = fmupd ''rews'' (ex_tensor xs) (ex_batch xs)"

text \<open>
  A small world to run the loop in: the world state counts the optimiser steps taken;
  the loss of a batch is the number of samples of its target field; the loss
  functional raises when the counter has reached \<open>fail_at\<close> (never, for \<open>None\<close>);
  a trajectory source draws batches of \<open>batch_size\<close> samples.
\<close>

definition ex_loss :: "nat \<Rightarrow> (nat, nat) loss_tensor" where
  "ex_loss v = \<lparr>backward = Inr, detach_cpu_numpy = (\<lambda>w. Inr v)\<rparr>"

definition ex_lf :: "nat option \<Rightarrow> (nat, unit, nat, nat) loss_functional" where
  "ex_lf fail_at dm batch target td w =
     (if fail_at = Some w then Inl (Raised ''loss evaluation failed'')
      else case fmlookup batch target of
             None \<Rightarrow> Inl (KeyError target)
           | Some t \<Rightarrow> Inr (ex_loss (length (rows t)), w))"

definition ex_optim :: "nat optimizer" where
  "ex_optim = \<lparr>zero_grad = Inr, optim_step = (\<lambda>w. Inr (Suc w))\<rparr>"

definition ex_log :: "string \<Rightarrow> nat \<Rightarrow> pyerr + nat" where
  "ex_log msg w = Inr w"

definition ex_draw :: "nat \<Rightarrow> (nat, nat) draw" where
  "ex_draw n w = Inr (ex_traj_batch (replicate n w), w)"

definition ex_traj :: "int \<Rightarrow> (nat, nat) traj" where
  "ex_traj n =
     \<lparr>num_step = n,
      random_batch = (\<lambda>batch_size num_draws. replicate (nat num_draws) (ex_draw (nat batch_size)))\<rparr>"

text \<open>A loss tensor whose \<^verbatim>\<open>backward()\<close> raises, and an optimiser whose \<^verbatim>\<open>step()\<close> raises.\<close>

definition ex_bad_loss :: "(nat, nat) loss_tensor" where
  "ex_bad_loss =
     \<lparr>backward = (\<lambda>w. Inl (Raised ''backward failed'')), detach_cpu_numpy = (\<lambda>w. Inr 0)\<rparr>"

definition ex_bad_lf :: "(nat, unit, nat, nat) loss_functional" where
  "ex_bad_lf dm batch target td w = Inr (ex_bad_loss, w)"

definition ex_bad_optim :: "nat optimizer" where
  "ex_bad_optim = \<lparr>zero_grad = Inr, optim_step = (\<lambda>w. Inl (Raised ''step failed''))\<rparr>"

text \<open>The float \<^verbatim>\<open>0.5\<close>.\<close>

definition rate_0_5 :: pyfloat where
  "rate_0_5 = Finite 1 (- 1)"

section \<open>Properties\<close>

subsection \<open>Floats and the sub-batch sizes\<close>

lemma two_powr_nonneg: "0 \<le> e \<Longrightarrow> (2::real) powr of_int e = 2 ^ nat e"
  by (simp add: powr_int)

lemma two_powr_neg: "e < 0 \<Longrightarrow> (2::real) powr of_int e = 1 / 2 ^ nat (- e)"
  by (simp add: powr_int)

lemma truncate_real_of_int: "truncate_real (of_int k) = k"
  by (simp add: truncate_real_def)

lemma truncate_real_divide:
  assumes "0 < d"
  shows "truncate_real (of_int m / of_int d) = sgn m * (\<bar>m\<bar> div d)"
proof (cases "0 \<le> m")
  case True
  then have "0 \<le> (of_int m :: real) / of_int d" using assms by simp
  then have "truncate_real (of_int m / of_int d) = m div d"
    by (simp add: truncate_real_def floor_divide_of_int_eq)
  moreover have "sgn m * (\<bar>m\<bar> div d) = m div d"
    using True by (cases "m = 0") (simp_all add: sgn_if)
  ultimately show ?thesis by simp
next
  case False
  then have neg: "m < 0" by simp
  then have "(of_int m :: real) / of_int d < 0" using assms by (simp add: divide_neg_pos)
  then have "truncate_real (of_int m / of_int d) = \<lceil>(of_int m :: real) / of_int d\<rceil>"
    by (simp add: truncate_real_def)
  also have "\<dots> = - \<lfloor>(of_int (- m) :: real) / of_int d\<rfloor>"
    by (simp add: ceiling_def)
  also have "\<dots> = - ((- m) div d)"
    by (simp only: floor_divide_of_int_eq)
  also have "\<dots> = sgn m * (\<bar>m\<bar> div d)"
    using neg by (simp add: sgn_if)
  finally show ?thesis .
qed

text \<open>\<^verbatim>\<open>int(x)\<close> is the truncation towards zero of the number \<open>x\<close> stands for.\<close>

lemma py_int_truncate:
  "py_int (Finite m e) = Inr (truncate_real (float_val (Finite m e)))"
proof (cases "0 \<le> e")
  case True
  have "float_val (Finite m e) = of_int (m * 2 ^ nat e)"
    using True by (simp add: two_powr_nonneg)
  then show ?thesis using True by (simp only: truncate_real_of_int py_int.simps if_True)
next
  case False
  then have "float_val (Finite m e) = of_int m / of_int (2 ^ nat (- e))"
    by (simp add: two_powr_neg)
  moreover have "(0::int) < 2 ^ nat (- e)" by simp
  ultimately have "truncate_real (float_val (Finite m e)) = sgn m * (\<bar>m\<bar> div 2 ^ nat (- e))"
    by (simp only: truncate_real_divide)
  then show ?thesis using False by simp
qed

text \<open>The constants are the doubles nearest to \<open>0.9\<close>, \<open>0.33\<close> and \<open>0.7\<close>.\<close>

lemma rate_0_9_nearest: "\<bar>float_val rate_0_9 - 9 / 10\<bar> < 2 powr (- 54)"
  by (simp add: rate_0_9_def powr_minus field_simps)

lemma rate_0_33_nearest: "\<bar>float_val rate_0_33 - 33 / 100\<bar> < 2 powr (- 55)"
  by (simp add: rate_0_33_def powr_minus field_simps)

lemma rate_0_7_nearest: "\<bar>float_val rate_0_7 - 7 / 10\<bar> < 2 powr (- 54)"
  by (simp add: rate_0_7_def powr_minus field_simps)

lemmas float_eval = batch_sizes_def int_times_float_def float_of_int_def to_double_def
  round_half_even_def bit_length.simps Let_def

lemma batch_sizes_100_rate_0_9: "batch_sizes 100 rate_0_9 = Inr (90, 10)"
  by (simp add: rate_0_9_def float_eval)

lemma batch_sizes_10_rate_0_33: "batch_sizes 10 rate_0_33 = Inr (3, 7)"
  by (simp add: rate_0_33_def float_eval)

lemma batch_sizes_512_rate_0_9: "batch_sizes 512 rate_0_9 = Inr (460, 52)"
  by (simp add: rate_0_9_def float_eval)

lemma batch_sizes_0_rate_0_9: "batch_sizes 0 rate_0_9 = Inr (0, 0)"
  by (simp add: rate_0_9_def float_eval)

text \<open>
  The product is the float product, rounded to a double before it is truncated:
  \<^verbatim>\<open>10 * 0.7\<close> is the double \<open>7.0\<close>, so \<^verbatim>\<open>int(10 * 0.7)\<close> is 7, although the double
  \<^verbatim>\<open>0.7\<close> is below \<open>7 / 10\<close> and ten times its exact value truncates to 6.
\<close>

lemma batch_sizes_10_rate_0_7: "batch_sizes 10 rate_0_7 = Inr (7, 3)"
  by (simp add: rate_0_7_def float_eval)

lemma exact_product_10_rate_0_7: "truncate_real (10 * float_val rate_0_7) = 6"
proof -
  have "float_val rate_0_7 = 3152519739159347 / 4503599627370496"
    by (simp add: rate_0_7_def powr_minus field_simps)
  then have "\<lfloor>10 * float_val rate_0_7\<rfloor> = 6" by (simp add: floor_unique)
  moreover have "0 \<le> 10 * float_val rate_0_7" by (simp add: rate_0_7_def)
  ultimately show ?thesis by (simp add: truncate_real_def)
qed

lemma batch_sizes_truncate:
  "batch_sizes batch_size rl_batch_rate =
     (case int_times_float batch_size rl_batch_rate of
        Inl err \<Rightarrow> Inl err
      | Inr p \<Rightarrow>
          if is_finite p
          then Inr (truncate_real (float_val p), batch_size - truncate_real (float_val p))
          else Inl (if p = NaN then ValueError else OverflowError))"
proof (cases "int_times_float batch_size rl_batch_rate :: pyerr + pyfloat")
  case (Inl err)
  then show ?thesis by (simp add: batch_sizes_def)
next
  case (Inr p)
  show ?thesis
  proof (cases p)
    case (Finite m e)
    have "batch_sizes batch_size rl_batch_rate =
        (case (py_int p :: pyerr + int) of Inl err \<Rightarrow> Inl err
         | Inr k \<Rightarrow> Inr (k, batch_size - k))"
      using Inr by (simp add: batch_sizes_def)
    then show ?thesis using Inr Finite by (simp only: py_int_truncate) simp
  next
    case (Infinite s)
    then show ?thesis using Inr by (simp add: batch_sizes_def)
  next
    case NaN
    then show ?thesis using Inr by (simp add: batch_sizes_def)
  qed
qed

text \<open>
  Claim C2. \<^verbatim>\<open>train_dm\<close> splits \<open>batch_size\<close> into the on-policy sub-size, the float
  product \<open>batch_size * rl_batch_rate\<close> truncated towards zero, and the random
  sub-size, the remainder \<open>batch_size - batch_size_rl\<close> (an infinite or NaN product
  raises). With \<open>batch_size = 100\<close> and rate \<open>0.9\<close> the sub-sizes are 90 and 10; with
  \<open>batch_size = 10\<close> and rate \<open>0.33\<close> they are 3 and 7.
\<close>

theorem batch_sizes_split:
  "batch_sizes batch_size rl_batch_rate =
     (case int_times_float batch_size rl_batch_rate of
        Inl err \<Rightarrow> Inl err
      | Inr p \<Rightarrow>
          if is_finite p
          then Inr (truncate_real (float_val p), batch_size - truncate_real (float_val p))
          else Inl (if p = NaN then ValueError else OverflowError))
   \<and> batch_sizes 100 rate_0_9 = Inr (90, 10)
   \<and> batch_sizes 10 rate_0_33 = Inr (3, 7)"
  by (simp only: batch_sizes_truncate [symmetric] batch_sizes_100_rate_0_9
      batch_sizes_10_rate_0_33 simp_thms)

subsection \<open>Steps per epoch\<close>

text \<open>
  Claim C1. The number of sampling steps per epoch is \<open>num_step\<close> of the random
  source floor-divided by \<open>batch_size_rand\<close> when \<open>batch_size_rand > 0\<close>, and
  \<open>num_step\<close> of the on-policy source floor-divided by \<open>batch_size_rl\<close> otherwise
  (which raises when \<open>batch_size_rl\<close> is 0). Floor division is the floor of the exact
  quotient.
\<close>

theorem steps_per_epoch_floor_division:
  "steps_per_epoch rl_traj rand_traj batch_size_rl batch_size_rand =
     (if 0 < batch_size_rand
      then Inr \<lfloor>real_of_int (num_step rand_traj) / real_of_int batch_size_rand\<rfloor>
      else if batch_size_rl = 0 then Inl ZeroDivisionError
      else Inr \<lfloor>real_of_int (num_step rl_traj) / real_of_int batch_size_rl\<rfloor>)"
  by (simp add: steps_per_epoch_def py_floordiv_def floor_divide_of_int_eq)

subsection \<open>Sequencing, dicts and \<^verbatim>\<open>torch.cat\<close>\<close>

lemma bind_err_Inl [simp]: "bind_err (Inl err) f = Inl err"
  by (simp add: bind_err_def)

lemma bind_err_Inr [simp]: "bind_err (Inr x) f = f x"
  by (simp add: bind_err_def)

lemma bind_err_eq_Inr: "bind_err r f = Inr y \<longleftrightarrow> (\<exists>x. r = Inr x \<and> f x = Inr y)"
  by (cases r) simp_all

lemma bind_err_eq_Inl:
  "bind_err r f = Inl err \<longleftrightarrow> r = Inl err \<or> (\<exists>x. r = Inr x \<and> f x = Inl err)"
  by (cases r) simp_all

lemma py_len_0: "py_len d = 0 \<longleftrightarrow> d = fmempty"
proof
  assume "py_len d = 0"
  then have "fmdom d = {||}" by (simp add: py_len_def)
  then have "fmlookup d x = None" for x
    by (metis fmdom_notD fempty_iff)
  then show "d = fmempty" by (intro fmap_ext) simp
next
  assume "d = fmempty"
  then show "py_len d = 0" by (simp add: py_len_def)
qed

lemma py_getitem_Some: "fmlookup d k = Some v \<Longrightarrow> py_getitem d k = Inr v"
  by (simp add: py_getitem_def)

lemma py_getitem_None: "fmlookup d k = None \<Longrightarrow> py_getitem d k = Inl (KeyError k)"
  by (simp add: py_getitem_def)

lemma py_getitem_eq_Inr: "py_getitem d k = Inr v \<longleftrightarrow> fmlookup d k = Some v"
  by (simp add: py_getitem_def split: option.splits)

lemma merged_keys_iff: "k |\<in>| merged_keys \<longleftrightarrow> k = ''obs'' \<or> k = ''acs'' \<or> k = ''next_obs''"
  by (auto simp: merged_keys_def)

lemma three_fields_dom:
  "fmdom (fmupd ''next_obs'' n (fmupd ''acs'' a (fmupd ''obs'' ob fmempty))) = merged_keys"
  by (auto simp: merged_keys_def)

lemma merged_keys_subset:
  "merged_keys |\<subseteq>| fmdom d \<longleftrightarrow>
     (\<exists>ob a n. fmlookup d ''obs'' = Some ob \<and> fmlookup d ''acs'' = Some a
        \<and> fmlookup d ''next_obs'' = Some n)"
  by (auto simp: merged_keys_def fmlookup_dom_iff)

lemma restrict_three_fields:
  assumes "fmlookup d ''obs'' = Some ob" "fmlookup d ''acs'' = Some a"
    "fmlookup d ''next_obs'' = Some n"
  shows "fmupd ''next_obs'' n (fmupd ''acs'' a (fmupd ''obs'' ob fmempty))
           = fmrestrict_fset merged_keys d"
  using assms by (intro fmap_ext) (simp add: merged_keys_iff)

lemma pass_fields_restrict:
  assumes "merged_keys |\<subseteq>| fmdom src"
  shows "pass_fields src = Inr (fmrestrict_fset merged_keys src)"
proof -
  from assms obtain ob a n where l: "fmlookup src ''obs'' = Some ob"
    "fmlookup src ''acs'' = Some a" "fmlookup src ''next_obs'' = Some n"
    by (auto simp: merged_keys_subset)
  then show ?thesis
    by (simp add: pass_fields_def py_getitem_Some restrict_three_fields)
qed

lemma pass_fields_InrD:
  assumes "pass_fields src = Inr b"
  shows "merged_keys |\<subseteq>| fmdom src \<and> b = fmrestrict_fset merged_keys src"
proof -
  from assms obtain ob a n where l: "fmlookup src ''obs'' = Some ob"
    "fmlookup src ''acs'' = Some a" "fmlookup src ''next_obs'' = Some n"
    by (auto simp: pass_fields_def bind_err_eq_Inr py_getitem_eq_Inr)
  then have s: "merged_keys |\<subseteq>| fmdom src" by (auto simp: merged_keys_subset)
  with assms show ?thesis by (simp add: pass_fields_restrict)
qed

lemma torch_cat_rows: "torch_cat a b = Inr c \<Longrightarrow> rows c = rows a @ rows b"
  by (auto simp: torch_cat_def split: if_splits)

lemma torch_cat_same_feat: "feat a = feat b \<Longrightarrow> \<exists>c. torch_cat a b = Inr c"
  by (simp add: torch_cat_def)

lemma torch_cat_no_rows_right:
  "rows b = [] \<Longrightarrow> feat b = feat a \<Longrightarrow> torch_cat a b = Inr a"
  by (cases a, cases b) (auto simp: torch_cat_def)

lemma torch_cat_no_rows_left:
  "rows a = [] \<Longrightarrow> feat a = feat b \<Longrightarrow> torch_cat a b = Inr b"
  by (cases a, cases b) (auto simp: torch_cat_def)

lemma cat_field_InrD:
  assumes "cat_field rand_batch rl_batch k = Inr c"
  shows "\<exists>t u. fmlookup rand_batch k = Some t \<and> fmlookup rl_batch k = Some u
           \<and> torch_cat t u = Inr c"
  using assms by (auto simp: cat_field_def bind_err_eq_Inr py_getitem_eq_Inr)

lemma cat_field_Some:
  "fmlookup rand_batch k = Some t \<Longrightarrow> fmlookup rl_batch k = Some u
     \<Longrightarrow> cat_field rand_batch rl_batch k = torch_cat t u"
  by (simp add: cat_field_def py_getitem_Some)

subsection \<open>The merged batch\<close>

lemma merge_batch_cat_fields:
  assumes "py_len rl_batch \<noteq> 0" "py_len rand_batch \<noteq> 0"
    and "merge_batch rl_batch rand_batch = Inr batch"
    and "k |\<in>| merged_keys"
  shows "\<exists>t u c. fmlookup rand_batch k = Some t \<and> fmlookup rl_batch k = Some u
           \<and> fmlookup batch k = Some c \<and> torch_cat t u = Inr c"
proof -
  from assms(1-3) obtain ob a n
    where c: "cat_field rand_batch rl_batch ''obs'' = Inr ob"
      "cat_field rand_batch rl_batch ''acs'' = Inr a"
      "cat_field rand_batch rl_batch ''next_obs'' = Inr n"
      and b: "batch = fmupd ''next_obs'' n (fmupd ''acs'' a (fmupd ''obs'' ob fmempty))"
    by (auto simp: merge_batch_def bind_err_eq_Inr)
  from assms(4) consider "k = ''obs''" | "k = ''acs''" | "k = ''next_obs''"
    by (auto simp: merged_keys_iff)
  then show ?thesis
  proof cases
    case 1
    with cat_field_InrD [OF c(1)] b show ?thesis by auto
  next
    case 2
    with cat_field_InrD [OF c(2)] b show ?thesis by auto
  next
    case 3
    with cat_field_InrD [OF c(3)] b show ?thesis by auto
  qed
qed

lemma pass_fields_dom:
  assumes "pass_fields src = Inr batch"
  shows "fmdom batch = merged_keys"
proof -
  from assms obtain ob a n
    where "batch = fmupd ''next_obs'' n (fmupd ''acs'' a (fmupd ''obs'' ob fmempty))"
    by (auto simp: pass_fields_def bind_err_eq_Inr)
  then show ?thesis by (simp only: three_fields_dom)
qed

lemma merge_batch_dom:
  assumes "merge_batch rl_batch rand_batch = Inr batch"
  shows "fmdom batch = merged_keys"
proof -
  consider "py_len rl_batch = 0" | "py_len rl_batch \<noteq> 0" "py_len rand_batch = 0"
    | "py_len rl_batch \<noteq> 0" "py_len rand_batch \<noteq> 0" by blast
  then show ?thesis
  proof cases
    case 1
    with assms have "pass_fields rand_batch = Inr batch" by (simp add: merge_batch_def)
    then show ?thesis by (rule pass_fields_dom)
  next
    case 2
    with assms have "pass_fields rl_batch = Inr batch" by (simp add: merge_batch_def)
    then show ?thesis by (rule pass_fields_dom)
  next
    case 3
    with assms obtain ob a n
      where "batch = fmupd ''next_obs'' n (fmupd ''acs'' a (fmupd ''obs'' ob fmempty))"
      by (auto simp: merge_batch_def bind_err_eq_Inr)
    then show ?thesis by (simp only: three_fields_dom)
  qed
qed

lemma no_samplesD:
  assumes "no_samples b other" "k |\<in>| merged_keys"
  shows "\<exists>t u. fmlookup b k = Some t \<and> fmlookup other k = Some u
           \<and> rows t = [] \<and> feat t = feat u"
proof -
  from assms have
    "case fmlookup b k of
       None \<Rightarrow> False
     | Some t \<Rightarrow>
         rows t = [] \<and>
         (case fmlookup other k of None \<Rightarrow> False | Some u \<Rightarrow> feat t = feat u)"
    unfolding no_samples_def by (rule fbspec)
  then show ?thesis by (simp split: option.splits)
qed

lemma subset_len: "merged_keys |\<subseteq>| fmdom b \<Longrightarrow> py_len b \<noteq> 0"
proof
  assume "merged_keys |\<subseteq>| fmdom b" "py_len b = 0"
  then have "merged_keys |\<subseteq>| {||}" by (simp add: py_len_0)
  then show False by (simp add: merged_keys_def)
qed

lemma cat_field_no_samples_rl:
  assumes "no_samples rl_batch rand_batch" "k |\<in>| merged_keys"
  shows "\<exists>t. fmlookup rand_batch k = Some t \<and> cat_field rand_batch rl_batch k = Inr t"
proof -
  from assms obtain t u where "fmlookup rl_batch k = Some t" "fmlookup rand_batch k = Some u"
    "rows t = []" "feat t = feat u" using no_samplesD by blast
  then show ?thesis by (simp add: cat_field_Some torch_cat_no_rows_right)
qed

lemma cat_field_no_samples_rand:
  assumes "no_samples rand_batch rl_batch" "k |\<in>| merged_keys"
  shows "\<exists>u. fmlookup rl_batch k = Some u \<and> cat_field rand_batch rl_batch k = Inr u"
proof -
  from assms obtain t u where "fmlookup rand_batch k = Some t" "fmlookup rl_batch k = Some u"
    "rows t = []" "feat t = feat u" using no_samplesD by blast
  then show ?thesis by (simp add: cat_field_Some torch_cat_no_rows_left)
qed

lemma merge_batch_cat_branch:
  assumes "py_len rl_batch \<noteq> 0" "py_len rand_batch \<noteq> 0"
    and "cat_field rand_batch rl_batch ''obs'' = Inr ob"
    and "cat_field rand_batch rl_batch ''acs'' = Inr a"
    and "cat_field rand_batch rl_batch ''next_obs'' = Inr n"
  shows "merge_batch rl_batch rand_batch
           = Inr (fmupd ''next_obs'' n (fmupd ''acs'' a (fmupd ''obs'' ob fmempty)))"
  using assms by (simp add: merge_batch_def)

lemma merge_batch_empty_rl:
  assumes "empty_batch rl_batch rand_batch" "merged_keys |\<subseteq>| fmdom rand_batch"
  shows "merge_batch rl_batch rand_batch = Inr (fmrestrict_fset merged_keys rand_batch)"
proof (cases "py_len rl_batch = 0")
  case True
  with assms(2) show ?thesis by (simp add: merge_batch_def pass_fields_restrict)
next
  case False
  with assms(1) have ns: "no_samples rl_batch rand_batch" by (simp add: empty_batch_def)
  have k: "''obs'' |\<in>| merged_keys" "''acs'' |\<in>| merged_keys" "''next_obs'' |\<in>| merged_keys"
    by (simp_all add: merged_keys_iff)
  obtain ob where ob: "fmlookup rand_batch ''obs'' = Some ob"
    "cat_field rand_batch rl_batch ''obs'' = Inr ob"
    using cat_field_no_samples_rl [OF ns k(1)] by blast
  obtain a where a: "fmlookup rand_batch ''acs'' = Some a"
    "cat_field rand_batch rl_batch ''acs'' = Inr a"
    using cat_field_no_samples_rl [OF ns k(2)] by blast
  obtain n where n: "fmlookup rand_batch ''next_obs'' = Some n"
    "cat_field rand_batch rl_batch ''next_obs'' = Inr n"
    using cat_field_no_samples_rl [OF ns k(3)] by blast
  have "merge_batch rl_batch rand_batch
          = Inr (fmupd ''next_obs'' n (fmupd ''acs'' a (fmupd ''obs'' ob fmempty)))"
    using False subset_len [OF assms(2)] ob(2) a(2) n(2) by (rule merge_batch_cat_branch)
  then show ?thesis
    by (simp only: restrict_three_fields [OF ob(1) a(1) n(1)])
qed

lemma merge_batch_empty_rand:
  assumes "empty_batch rand_batch rl_batch" "merged_keys |\<subseteq>| fmdom rl_batch"
  shows "merge_batch rl_batch rand_batch = Inr (fmrestrict_fset merged_keys rl_batch)"
proof (cases "py_len rand_batch = 0")
  case True
  with assms(2) subset_len [OF assms(2)] show ?thesis
    by (simp add: merge_batch_def pass_fields_restrict)
next
  case False
  with assms(1) have ns: "no_samples rand_batch rl_batch" by (simp add: empty_batch_def)
  have k: "''obs'' |\<in>| merged_keys" "''acs'' |\<in>| merged_keys" "''next_obs'' |\<in>| merged_keys"
    by (simp_all add: merged_keys_iff)
  obtain ob where ob: "fmlookup rl_batch ''obs'' = Some ob"
    "cat_field rand_batch rl_batch ''obs'' = Inr ob"
    using cat_field_no_samples_rand [OF ns k(1)] by blast
  obtain a where a: "fmlookup rl_batch ''acs'' = Some a"
    "cat_field rand_batch rl_batch ''acs'' = Inr a"
    using cat_field_no_samples_rand [OF ns k(2)] by blast
  obtain n where n: "fmlookup rl_batch ''next_obs'' = Some n"
    "cat_field rand_batch rl_batch ''next_obs'' = Inr n"
    using cat_field_no_samples_rand [OF ns k(3)] by blast
  have "merge_batch rl_batch rand_batch
          = Inr (fmupd ''next_obs'' n (fmupd ''acs'' a (fmupd ''obs'' ob fmempty)))"
    using subset_len [OF assms(2)] False ob(2) a(2) n(2) by (rule merge_batch_cat_branch)
  then show ?thesis
    by (simp only: restrict_three_fields [OF ob(1) a(1) n(1)])
qed

lemma restrict_lookup:
  "k |\<in>| merged_keys \<Longrightarrow> fmlookup (fmrestrict_fset merged_keys src) k = fmlookup src k"
  by simp

lemma restrict_dom:
  assumes "merged_keys |\<subseteq>| fmdom src"
  shows "fmdom (fmrestrict_fset merged_keys src) = merged_keys"
proof -
  from assms obtain ob a n where "fmlookup src ''obs'' = Some ob"
    "fmlookup src ''acs'' = Some a" "fmlookup src ''next_obs'' = Some n"
    by (auto simp: merged_keys_subset)
  then have "fmupd ''next_obs'' n (fmupd ''acs'' a (fmupd ''obs'' ob fmempty))
           = fmrestrict_fset merged_keys src" by (rule restrict_three_fields)
  then show ?thesis using three_fields_dom [of n a ob] by simp
qed

lemma restrict_all:
  "fmdom src = merged_keys \<Longrightarrow> fmrestrict_fset merged_keys src = src"
  using fmrestrict_fset_dom [of src] by simp

subsection \<open>Pass-through of an empty side\<close>

lemma ex_batch_dom: "fmdom (ex_batch xs) = merged_keys"
  by (simp only: ex_batch_def three_fields_dom)

lemma ex_batch_len: "py_len (ex_batch xs) \<noteq> 0"
  by (simp add: py_len_0 ex_batch_def)

lemma ex_traj_batch_len: "py_len (ex_traj_batch xs) \<noteq> 0"
  by (simp add: py_len_0 ex_traj_batch_def)

lemma ex_traj_batch_keys: "merged_keys |\<subseteq>| fmdom (ex_traj_batch xs)"
  by (auto simp: ex_traj_batch_def ex_batch_dom)

lemma ex_traj_batch_restrict: "fmrestrict_fset merged_keys (ex_traj_batch xs) = ex_batch xs"
proof -
  have "fmlookup (ex_traj_batch xs) ''obs'' = Some (ex_tensor xs)"
    "fmlookup (ex_traj_batch xs) ''acs'' = Some (ex_tensor xs)"
    "fmlookup (ex_traj_batch xs) ''next_obs'' = Some (ex_tensor (map Suc xs))"
    by (simp_all add: ex_traj_batch_def ex_batch_def)
  then show ?thesis unfolding ex_batch_def by (rule restrict_three_fields [symmetric])
qed

lemma no_samples_ex: "no_samples (ex_traj_batch []) (ex_traj_batch xs)"
  by (simp add: no_samples_def merged_keys_def ex_traj_batch_def ex_batch_def ex_tensor_def)



subsection \<open>Concatenation of two non-empty batches\<close>

lemma merge_ex:
  "merge_batch (ex_traj_batch [3, 4, 5]) (ex_traj_batch [1, 2]) = Inr (ex_batch [1, 2, 3, 4, 5])"
  by (simp add: merge_batch_def py_len_0 ex_traj_batch_def ex_batch_def ex_tensor_def
      cat_field_def py_getitem_def torch_cat_def)

text \<open>
  Claim C5. When both drawn batches are non-empty dicts and the merge succeeds, each
  field of the merged batch has as many samples as the two input batches' fields
  together.
\<close>

theorem merge_batch_sample_count:
  assumes "py_len rl_batch \<noteq> 0" "py_len rand_batch \<noteq> 0"
    and "merge_batch rl_batch rand_batch = Inr batch"
    and "k |\<in>| merged_keys"
  shows "\<exists>t u c. fmlookup rand_batch k = Some t \<and> fmlookup rl_batch k = Some u
           \<and> fmlookup batch k = Some c
           \<and> length (rows c) = length (rows t) + length (rows u)"
proof -
  from merge_batch_cat_fields [OF assms] obtain t u c
    where f: "fmlookup rand_batch k = Some t" "fmlookup rl_batch k = Some u"
      "fmlookup batch k = Some c" and c: "torch_cat t u = Inr c" by blast
  from c have "rows c = rows t @ rows u" by (rule torch_cat_rows)
  then have "length (rows c) = length (rows t) + length (rows u)" by simp
  with f show ?thesis by blast
qed

theorem merge_batch_sample_count_witness:
  "py_len (ex_traj_batch [3, 4, 5]) \<noteq> 0 \<and> py_len (ex_traj_batch [1, 2]) \<noteq> 0
   \<and> merge_batch (ex_traj_batch [3, 4, 5]) (ex_traj_batch [1, 2]) = Inr (ex_batch [1, 2, 3, 4, 5])
   \<and> ''obs'' |\<in>| merged_keys
   \<and> (\<exists>t u c. fmlookup (ex_traj_batch [1, 2]) ''obs'' = Some t
         \<and> fmlookup (ex_traj_batch [3, 4, 5]) ''obs'' = Some u
         \<and> fmlookup (ex_batch [1, 2, 3, 4, 5]) ''obs'' = Some c
         \<and> length (rows t) = 2 \<and> length (rows u) = 3 \<and> length (rows c) = 5)"
proof -
  have k: "''obs'' |\<in>| merged_keys" by (simp add: merged_keys_iff)
  from merge_batch_sample_count [OF ex_traj_batch_len ex_traj_batch_len merge_ex k]
  obtain t u c where f: "fmlookup (ex_traj_batch [1, 2]) ''obs'' = Some t"
    "fmlookup (ex_traj_batch [3, 4, 5]) ''obs'' = Some u"
    "fmlookup (ex_batch [1, 2, 3, 4, 5]) ''obs'' = Some c"
    "length (rows c) = length (rows t) + length (rows u)" by blast
  from f(1,2) have "length (rows t) = 2" "length (rows u) = 3"
    by (auto simp: ex_traj_batch_def ex_batch_def ex_tensor_def)
  with f have "\<exists>t u c. fmlookup (ex_traj_batch [1, 2]) ''obs'' = Some t
         \<and> fmlookup (ex_traj_batch [3, 4, 5]) ''obs'' = Some u
         \<and> fmlookup (ex_batch [1, 2, 3, 4, 5]) ''obs'' = Some c
         \<and> length (rows t) = 2 \<and> length (rows u) = 3 \<and> length (rows c) = 5"
    by simp
  with k merge_ex ex_traj_batch_len show ?thesis by simp
qed

text \<open>
  Claim C10. When both drawn batches are non-empty dicts and the merge succeeds, each
  field of the merged batch holds the samples of the random source's batch first and
  those of the on-policy batch after them.
\<close>

theorem merge_batch_rand_first:
  assumes "py_len rl_batch \<noteq> 0" "py_len rand_batch \<noteq> 0"
    and "merge_batch rl_batch rand_batch = Inr batch"
    and "k |\<in>| merged_keys"
  shows "\<exists>t u c. fmlookup rand_batch k = Some t \<and> fmlookup rl_batch k = Some u
           \<and> fmlookup batch k = Some c
           \<and> rows c = rows t @ rows u"
proof -
  from merge_batch_cat_fields [OF assms] obtain t u c
    where f: "fmlookup rand_batch k = Some t" "fmlookup rl_batch k = Some u"
      "fmlookup batch k = Some c" and c: "torch_cat t u = Inr c" by blast
  from c have "rows c = rows t @ rows u" by (rule torch_cat_rows)
  with f show ?thesis by blast
qed

theorem merge_batch_rand_first_witness:
  "py_len (ex_traj_batch [3, 4, 5]) \<noteq> 0 \<and> py_len (ex_traj_batch [1, 2]) \<noteq> 0
   \<and> merge_batch (ex_traj_batch [3, 4, 5]) (ex_traj_batch [1, 2]) = Inr (ex_batch [1, 2, 3, 4, 5])
   \<and> ''next_obs'' |\<in>| merged_keys
   \<and> (\<exists>t u c. fmlookup (ex_traj_batch [1, 2]) ''next_obs'' = Some t
         \<and> fmlookup (ex_traj_batch [3, 4, 5]) ''next_obs'' = Some u
         \<and> fmlookup (ex_batch [1, 2, 3, 4, 5]) ''next_obs'' = Some c
         \<and> rows t = [2, 3] \<and> rows u = [4, 5, 6] \<and> rows c = [2, 3, 4, 5, 6])"
proof -
  have k: "''next_obs'' |\<in>| merged_keys" by (simp add: merged_keys_iff)
  from merge_batch_rand_first [OF ex_traj_batch_len ex_traj_batch_len merge_ex k]
  obtain t u c where f: "fmlookup (ex_traj_batch [1, 2]) ''next_obs'' = Some t"
    "fmlookup (ex_traj_batch [3, 4, 5]) ''next_obs'' = Some u"
    "fmlookup (ex_batch [1, 2, 3, 4, 5]) ''next_obs'' = Some c"
    "rows c = rows t @ rows u" by blast
  from f(1,2) have "rows t = [2, 3]" "rows u = [4, 5, 6]"
    by (auto simp: ex_traj_batch_def ex_batch_def ex_tensor_def)
  with f have "\<exists>t u c. fmlookup (ex_traj_batch [1, 2]) ''next_obs'' = Some t
         \<and> fmlookup (ex_traj_batch [3, 4, 5]) ''next_obs'' = Some u
         \<and> fmlookup (ex_batch [1, 2, 3, 4, 5]) ''next_obs'' = Some c
         \<and> rows t = [2, 3] \<and> rows u = [4, 5, 6] \<and> rows c = [2, 3, 4, 5, 6]"
    by simp
  with k merge_ex ex_traj_batch_len show ?thesis by simp
qed

text \<open>The merge succeeds when both batches have the three fields, with equal sample shapes.\<close>

lemma merge_batch_total:
  assumes "merged_keys |\<subseteq>| fmdom rl_batch" "merged_keys |\<subseteq>| fmdom rand_batch"
    and "\<forall>k |\<in>| merged_keys. \<forall>t u. fmlookup rand_batch k = Some t
           \<longrightarrow> fmlookup rl_batch k = Some u \<longrightarrow> feat t = feat u"
  shows "\<exists>batch. merge_batch rl_batch rand_batch = Inr batch"
proof -
  have c: "\<exists>c. cat_field rand_batch rl_batch k = Inr c" if k: "k |\<in>| merged_keys" for k
  proof -
    from assms(1,2) k obtain t u where l: "fmlookup rand_batch k = Some t"
      "fmlookup rl_batch k = Some u" by (auto simp: merged_keys_subset merged_keys_iff)
    with assms(3) k have "feat t = feat u" by blast
    then show ?thesis using l by (simp add: cat_field_Some torch_cat_same_feat)
  qed
  have k: "''obs'' |\<in>| merged_keys" "''acs'' |\<in>| merged_keys" "''next_obs'' |\<in>| merged_keys"
    by (simp_all add: merged_keys_iff)
  from c [OF k(1)] c [OF k(2)] c [OF k(3)]
  obtain ob a n where "cat_field rand_batch rl_batch ''obs'' = Inr ob"
    "cat_field rand_batch rl_batch ''acs'' = Inr a"
    "cat_field rand_batch rl_batch ''next_obs'' = Inr n" by blast
  with subset_len [OF assms(1)] subset_len [OF assms(2)] show ?thesis
    by (simp add: merge_batch_cat_branch)
qed

subsection \<open>\<^verbatim>\<open>update_dm\<close> step by step\<close>

text \<open>
  When \<^verbatim>\<open>update_dm\<close> returns, the loss was computed on the given batch, the gradients
  were cleared, the loss was backpropagated and the optimiser stepped, in this order, and
  the value returned is what \<^verbatim>\<open>detach().cpu().numpy()\<close> gives for that loss afterwards.
\<close>

lemma update_dm_InrD:
  assumes "update_dm lf dm optim_dm batch target td w = Inr (v, w')"
  shows "\<exists>dm_loss w1 w2 w3.
           lf dm batch target td w = Inr (dm_loss, w1)
         \<and> zero_grad optim_dm w1 = Inr w2
         \<and> backward dm_loss w2 = Inr w3
         \<and> optim_step optim_dm w3 = Inr w'
         \<and> detach_cpu_numpy dm_loss w' = Inr v"
  using assms unfolding update_dm_def by (auto simp: bind_err_eq_Inr)

subsection \<open>The loops\<close>

lemma for_zip_length:
  "for_zip body gen_rl gen_rand dm_losses w = Inr (ls, w')
     \<Longrightarrow> length ls = length dm_losses + min (length gen_rl) (length gen_rand)"
proof (induction body gen_rl gen_rand dm_losses w rule: for_zip.induct)
  case (1 body gen_rand dm_losses w)
  then show ?case by simp
next
  case (2 body g gen_rl dm_losses w)
  then show ?case by (auto simp: bind_err_eq_Inr)
next
  case (3 body g gen_rl h gen_rand dm_losses w)
  from "3.prems" obtain rl_batch w1 rand_batch w2 dm_loss w3
    where s: "g w = Inr (rl_batch, w1)" "h w1 = Inr (rand_batch, w2)"
      "body rl_batch rand_batch w2 = Inr (dm_loss, w3)"
      and r: "for_zip body gen_rl gen_rand (dm_losses @ [dm_loss]) w3 = Inr (ls, w')"
    by (auto simp: bind_err_eq_Inr)
  from "3.IH" [OF r]
  show ?case by simp
qed

lemma for_range_length:
  assumes "\<And>acc w ls w'. epoch_body acc w = Inr (ls, w') \<Longrightarrow> length ls = length acc + k"
    and "for_range epoch_body n dm_losses w = Inr (ls, w')"
  shows "length ls = length dm_losses + n * k"
  using assms(2)
proof (induction n arbitrary: dm_losses w)
  case 0
  then show ?case by simp
next
  case (Suc n)
  from Suc.prems obtain acc1 w1 where e: "epoch_body dm_losses w = Inr (acc1, w1)"
    and r: "for_range epoch_body n acc1 w1 = Inr (ls, w')"
    by (auto simp: bind_err_eq_Inr)
  from assms(1) [OF e] Suc.IH [OF r] show ?case by simp
qed

lemma train_dm_InrD:
  assumes "train_dm lf logger rl_traj rand_traj dyn_model optim_dm epoch batch_size rl_batch_rate
             target td w = Inr (result, w')"
  shows "\<exists>batch_size_rl batch_size_rand w1 step dm_losses w2.
           batch_sizes batch_size rl_batch_rate = Inr (batch_size_rl, batch_size_rand)
         \<and> logger ''Optimizing...'' w = Inr w1
         \<and> steps_per_epoch rl_traj rand_traj batch_size_rl batch_size_rand = Inr step
         \<and> for_range
              (for_zip (train_step lf dyn_model optim_dm target td)
                 (random_batch rl_traj batch_size_rl step)
                 (random_batch rand_traj batch_size_rand step))
              (nat epoch) [] w1 = Inr (dm_losses, w2)
         \<and> logger ''Optimization finished!'' w2 = Inr w'
         \<and> result = fmupd ''DynModelLoss'' dm_losses fmempty"
  using assms unfolding train_dm_def by (auto simp: bind_err_eq_Inr)

lemma train_dm_losses_length:
  assumes t: "train_dm lf logger rl_traj rand_traj dyn_model optim_dm epoch batch_size
             rl_batch_rate target td w = Inr (result, w')"
    and b: "batch_sizes batch_size rl_batch_rate = Inr (batch_size_rl, batch_size_rand)"
    and s: "steps_per_epoch rl_traj rand_traj batch_size_rl batch_size_rand = Inr step"
    and l1: "int (length (random_batch rl_traj batch_size_rl step)) = step"
    and l2: "int (length (random_batch rand_traj batch_size_rand step)) = step"
  shows "fmdom result = {|''DynModelLoss''|}
       \<and> (\<exists>dm_losses. fmlookup result ''DynModelLoss'' = Some dm_losses
            \<and> int (length dm_losses) = max 0 epoch * step)"
proof -
  from train_dm_InrD [OF t] b s obtain w1 dm_losses w2
    where r: "for_range
              (for_zip (train_step lf dyn_model optim_dm target td)
                 (random_batch rl_traj batch_size_rl step)
                 (random_batch rand_traj batch_size_rand step))
              (nat epoch) [] w1 = Inr (dm_losses, w2)"
      and res: "result = fmupd ''DynModelLoss'' dm_losses fmempty"
    by auto
  from l1 l2 have k: "min (length (random_batch rl_traj batch_size_rl step))
      (length (random_batch rand_traj batch_size_rand step)) = nat step" by linarith
  have e: "length ls = length acc + nat step"
    if "for_zip (train_step lf dyn_model optim_dm target td)
        (random_batch rl_traj batch_size_rl step)
        (random_batch rand_traj batch_size_rand step) acc w = Inr (ls, w')" for acc w ls w'
    using for_zip_length [OF that] k by simp
  have "length dm_losses = nat epoch * nat step"
    using for_range_length [OF e r] by simp
  moreover have "0 \<le> step" using l1 by linarith
  ultimately have "int (length dm_losses) = max 0 epoch * step"
    by (simp add: max_def)
  with res show ?thesis by simp
qed

lemma steps_1000_52: "num_step rand_traj = 1000
    \<Longrightarrow> steps_per_epoch rl_traj rand_traj 460 52 = Inr 19"
  by (simp add: steps_per_epoch_def py_floordiv_def)

subsection \<open>The loop in the small world\<close>

lemma ex_merge:
  "merge_batch (ex_traj_batch xs) (ex_traj_batch ys) = Inr (ex_batch (ys @ xs))"
  by (simp add: merge_batch_def py_len_0 ex_traj_batch_def ex_batch_def ex_tensor_def
      cat_field_def py_getitem_def torch_cat_def)

lemma ex_update_dm:
  "fmlookup batch target = Some t
     \<Longrightarrow> update_dm (ex_lf None) dm ex_optim batch target td w = Inr (length (rows t), Suc w)"
  by (simp add: update_dm_def ex_lf_def ex_optim_def ex_loss_def)

lemma ex_train_step:
  "train_step (ex_lf None) dm ex_optim ''next_obs'' td (ex_traj_batch xs) (ex_traj_batch ys) w
     = Inr (length ys + length xs, Suc w)"
proof -
  have "fmlookup (ex_batch (ys @ xs)) ''next_obs'' = Some (ex_tensor (map Suc (ys @ xs)))"
    by (simp add: ex_batch_def)
  from ex_update_dm [OF this] show ?thesis
    by (simp add: train_step_def ex_merge ex_tensor_def)
qed

lemma ex_for_zip_step:
  "for_zip (train_step (ex_lf None) dm ex_optim ''next_obs'' td)
       (ex_draw a # gen_rl) (ex_draw b # gen_rand) dm_losses w
     = for_zip (train_step (ex_lf None) dm ex_optim ''next_obs'' td)
         gen_rl gen_rand (dm_losses @ [b + a]) (Suc w)"
  by (simp add: ex_draw_def ex_train_step)

lemma ex_for_zip:
  "for_zip (train_step (ex_lf None) dm ex_optim ''next_obs'' td)
       (replicate n (ex_draw a)) (replicate n (ex_draw b)) dm_losses w
     = Inr (dm_losses @ replicate n (b + a), w + n)"
proof (induction n arbitrary: dm_losses w)
  case 0
  then show ?case by simp
next
  case (Suc n)
  have "for_zip (train_step (ex_lf None) dm ex_optim ''next_obs'' td)
       (replicate (Suc n) (ex_draw a)) (replicate (Suc n) (ex_draw b)) dm_losses w
     = Inr ((dm_losses @ [b + a]) @ replicate n (b + a), Suc w + n)"
    by (simp only: replicate_Suc ex_for_zip_step Suc.IH)
  then show ?case by simp
qed

lemma ex_for_range:
  "for_range
       (for_zip (train_step (ex_lf None) dm ex_optim ''next_obs'' td)
          (replicate n (ex_draw a)) (replicate n (ex_draw b)))
       m dm_losses w
     = Inr (dm_losses @ replicate (m * n) (b + a), w + m * n)"
proof (induction m arbitrary: dm_losses w)
  case 0
  then show ?case by simp
next
  case (Suc m)
  have "for_range
       (for_zip (train_step (ex_lf None) dm ex_optim ''next_obs'' td)
          (replicate n (ex_draw a)) (replicate n (ex_draw b)))
       (Suc m) dm_losses w
     = Inr ((dm_losses @ replicate n (b + a)) @ replicate (m * n) (b + a), (w + n) + m * n)"
    by (simp only: for_range.simps ex_for_zip bind_err_Inr prod.case Suc.IH)
  then show ?case by (simp add: replicate_add)
qed

lemma ex_train_dm:
  assumes "batch_sizes batch_size rl_batch_rate = Inr (batch_size_rl, batch_size_rand)"
    and "steps_per_epoch (ex_traj n_rl) (ex_traj n_rand) batch_size_rl batch_size_rand
           = Inr step"
  shows "train_dm (ex_lf None) ex_log (ex_traj n_rl) (ex_traj n_rand) dm ex_optim
             epoch batch_size rl_batch_rate ''next_obs'' td w
           = Inr (fmupd ''DynModelLoss''
                    (replicate (nat epoch * nat step) (nat batch_size_rand + nat batch_size_rl))
                    fmempty,
                  w + nat epoch * nat step)"
  using assms by (simp add: train_dm_def ex_log_def ex_traj_def ex_for_range)

lemma ex_traj_length: "length (random_batch (ex_traj n) batch_size step) = nat step"
  by (simp add: ex_traj_def)

lemma ex_steps: "steps_per_epoch (ex_traj 100) (ex_traj 1000) 460 52 = Inr 19"
  by (simp add: steps_per_epoch_def py_floordiv_def ex_traj_def)

subsection \<open>The loss history\<close>




subsection \<open>Both sub-batch sizes zero\<close>

text \<open>
  Claim C8. When both computed sub-batch sizes are 0, the step count is a division by
  zero, which nothing guards: \<^verbatim>\<open>train_dm\<close> raises and returns no result (it raises
  \<^verbatim>\<open>ZeroDivisionError\<close>, the logger call before it having returned).
\<close>

theorem train_dm_zero_sizes:
  assumes "batch_sizes batch_size rl_batch_rate = Inr (0, 0)"
  shows "steps_per_epoch rl_traj rand_traj 0 0 = Inl ZeroDivisionError
       \<and> (\<exists>err. train_dm lf logger rl_traj rand_traj dyn_model optim_dm epoch batch_size
                    rl_batch_rate target td w = Inl err)
       \<and> (\<forall>w1. logger ''Optimizing...'' w = Inr w1 \<longrightarrow>
             train_dm lf logger rl_traj rand_traj dyn_model optim_dm epoch batch_size
               rl_batch_rate target td w = Inl ZeroDivisionError)"
proof -
  have s: "steps_per_epoch rl_traj rand_traj 0 0 = Inl ZeroDivisionError"
    by (simp add: steps_per_epoch_def py_floordiv_def)
  have t: "train_dm lf logger rl_traj rand_traj dyn_model optim_dm epoch batch_size
        rl_batch_rate target td w
      = bind_err (logger ''Optimizing...'' w) (\<lambda>w1. Inl ZeroDivisionError)"
    using assms by (simp add: train_dm_def s)
  show ?thesis
  proof (cases "logger ''Optimizing...'' w")
    case (Inl err)
    with s t show ?thesis by simp
  next
    case (Inr w1)
    with s t show ?thesis by simp
  qed
qed

theorem train_dm_zero_sizes_witness:
  "batch_sizes 0 rate_0_9 = Inr (0, 0)
   \<and> steps_per_epoch (ex_traj 100) (ex_traj 1000) 0 0 = Inl ZeroDivisionError
   \<and> ex_log ''Optimizing...'' 0 = Inr 0
   \<and> train_dm (ex_lf None) ex_log (ex_traj 100) (ex_traj 1000) () ex_optim 2 0 rate_0_9
        ''next_obs'' True 0 = Inl ZeroDivisionError"
  using train_dm_zero_sizes [OF batch_sizes_0_rate_0_9, of "ex_traj 100" "ex_traj 1000"
      "ex_lf None" ex_log "()" ex_optim 2 "''next_obs''" True 0]
  by (simp add: batch_sizes_0_rate_0_9 ex_log_def)

subsection \<open>The keys of the batch passed to \<^verbatim>\<open>update_dm\<close>\<close>

lemma update_dm_cong:
  "lf dm batch target td w = lf' dm batch target td w
     \<Longrightarrow> update_dm lf dm optim_dm batch target td w = update_dm lf' dm optim_dm batch target td w"
  by (simp add: update_dm_def)

lemma train_step_cong:
  assumes "\<And>b w. fmdom b = merged_keys \<Longrightarrow> lf dm b target td w = lf' dm b target td w"
  shows "train_step lf dm optim_dm target td = train_step lf' dm optim_dm target td"
proof (intro ext)
  fix rl_batch rand_batch w
  show "train_step lf dm optim_dm target td rl_batch rand_batch w
      = train_step lf' dm optim_dm target td rl_batch rand_batch w"
  proof (cases "merge_batch rl_batch rand_batch")
    case (Inl err)
    then show ?thesis by (simp add: train_step_def)
  next
    case (Inr batch)
    then have "fmdom batch = merged_keys" by (rule merge_batch_dom)
    then have "lf dm batch target td w = lf' dm batch target td w" by (rule assms)
    then have "update_dm lf dm optim_dm batch target td w
        = update_dm lf' dm optim_dm batch target td w" by (rule update_dm_cong)
    then show ?thesis using Inr by (simp add: train_step_def)
  qed
qed

lemma rews_not_merged: "''rews'' |\<notin>| merged_keys"
  by (simp add: merged_keys_def)

text \<open>
  Claim C9. Whichever branch merges the two drawn batches, and whatever the target,
  a merged batch has exactly the keys \<^verbatim>\<open>obs\<close>, \<^verbatim>\<open>acs\<close> and \<^verbatim>\<open>next_obs\<close>, so never
  \<^verbatim>\<open>rews\<close>; and the loss functional is only ever applied to batches with this key
  set: two loss functionals that agree on them give the same run of \<^verbatim>\<open>train_dm\<close>.
\<close>

theorem merged_batch_keys:
  "(merge_batch rl_batch rand_batch = Inr batch \<longrightarrow>
      fmdom batch = merged_keys \<and> ''rews'' |\<notin>| fmdom batch)
   \<and> ((\<forall>b w. fmdom b = merged_keys \<longrightarrow>
          lf dyn_model b target td w = lf' dyn_model b target td w) \<longrightarrow>
        train_dm lf logger rl_traj rand_traj dyn_model optim_dm epoch batch_size
            rl_batch_rate target td w0
          = train_dm lf' logger rl_traj rand_traj dyn_model optim_dm epoch batch_size
              rl_batch_rate target td w0)"
proof (intro conjI impI)
  assume "merge_batch rl_batch rand_batch = Inr batch"
  then show "fmdom batch = merged_keys" by (rule merge_batch_dom)
  then show "''rews'' |\<notin>| fmdom batch" by (simp add: rews_not_merged)
next
  assume "\<forall>b w. fmdom b = merged_keys \<longrightarrow>
          lf dyn_model b target td w = lf' dyn_model b target td w"
  then have "train_step lf dyn_model optim_dm target td
      = train_step lf' dyn_model optim_dm target td"
    by (intro train_step_cong) blast
  then show "train_dm lf logger rl_traj rand_traj dyn_model optim_dm epoch batch_size
            rl_batch_rate target td w0
          = train_dm lf' logger rl_traj rand_traj dyn_model optim_dm epoch batch_size
              rl_batch_rate target td w0"
    by (simp add: train_dm_def)
qed

theorem merged_batch_keys_witness:
  "merge_batch (ex_traj_batch [3, 4, 5]) (ex_traj_batch [1, 2]) = Inr (ex_batch [1, 2, 3, 4, 5])
   \<and> fmdom (ex_batch [1, 2, 3, 4, 5]) = merged_keys
   \<and> ''rews'' |\<notin>| fmdom (ex_batch [1, 2, 3, 4, 5])
   \<and> train_dm (ex_lf None) ex_log (ex_traj 100) (ex_traj 1000) () ex_optim 2 512 rate_0_9
        ''rews'' True 0
     = train_dm (\<lambda>dm b. ex_lf None dm (fmrestrict_fset merged_keys b)) ex_log
         (ex_traj 100) (ex_traj 1000) () ex_optim 2 512 rate_0_9 ''rews'' True 0"
proof -
  have "\<forall>b w. fmdom b = merged_keys \<longrightarrow>
      ex_lf None () b ''rews'' True w
        = (\<lambda>dm b. ex_lf None dm (fmrestrict_fset merged_keys b)) () b ''rews'' True w"
    by (simp add: restrict_all)
  with merged_batch_keys [of "ex_traj_batch [3, 4, 5]" "ex_traj_batch [1, 2]"
      "ex_batch [1, 2, 3, 4, 5]" "ex_lf None" "()" "''rews''" True
      "\<lambda>dm b. ex_lf None dm (fmrestrict_fset merged_keys b)" ex_log
      "ex_traj 100" "ex_traj 1000" ex_optim 2 512 rate_0_9 0] merge_ex
  show ?thesis by blast
qed

subsection \<open>Exceptions abort the run\<close>

lemma for_zip_step_fails:
  "g w = Inr (rl_batch, w1) \<Longrightarrow> h w1 = Inr (rand_batch, w2)
     \<Longrightarrow> body rl_batch rand_batch w2 = Inl err
     \<Longrightarrow> for_zip body (g # gen_rl) (h # gen_rand) dm_losses w = Inl err"
  by simp

lemma for_zip_prefix:
  assumes "length gs1 = length hs1"
    and "for_zip body gs1 hs1 dm_losses w = Inr (losses1, w1)"
  shows "for_zip body (gs1 @ gen_rl) (hs1 @ gen_rand) dm_losses w
           = for_zip body gen_rl gen_rand losses1 w1"
  using assms
proof (induction gs1 hs1 arbitrary: dm_losses w rule: list_induct2)
  case Nil
  then show ?case by simp
next
  case (Cons g gs1 h hs1)
  from Cons.prems obtain rl_batch wa rand_batch wb dm_loss wc
    where s: "g w = Inr (rl_batch, wa)" "h wa = Inr (rand_batch, wb)"
      "body rl_batch rand_batch wb = Inr (dm_loss, wc)"
      and r: "for_zip body gs1 hs1 (dm_losses @ [dm_loss]) wc = Inr (losses1, w1)"
    by (auto simp: bind_err_eq_Inr)
  from s Cons.IH [OF r] show ?case by simp
qed

lemma for_range_fails:
  "epoch_body dm_losses w = Inl err \<Longrightarrow> for_range epoch_body (Suc n) dm_losses w = Inl err"
  by simp

lemma for_range_prefix:
  assumes "for_range epoch_body n1 dm_losses w = Inr (losses1, w1)"
  shows "for_range epoch_body (n1 + n2) dm_losses w = for_range epoch_body n2 losses1 w1"
  using assms
proof (induction n1 arbitrary: dm_losses w)
  case 0
  then show ?case by simp
next
  case (Suc n1)
  from Suc.prems obtain la wa where e: "epoch_body dm_losses w = Inr (la, wa)"
    and r: "for_range epoch_body n1 la wa = Inr (losses1, w1)"
    by (auto simp: bind_err_eq_Inr)
  from e Suc.IH [OF r] show ?case by simp
qed

lemma train_step_fails:
  "merge_batch rl_batch rand_batch = Inr batch
     \<Longrightarrow> update_dm lf dm optim_dm batch target td w = Inl err
     \<Longrightarrow> train_step lf dm optim_dm target td rl_batch rand_batch w = Inl err"
  by (simp add: train_step_def)

lemma update_dm_lf_fails:
  "lf dm batch target td w = Inl err \<Longrightarrow> update_dm lf dm optim_dm batch target td w = Inl err"
  by (simp add: update_dm_def)

lemma update_dm_backward_fails:
  "lf dm batch target td w = Inr (dm_loss, w1) \<Longrightarrow> zero_grad optim_dm w1 = Inr w2
     \<Longrightarrow> backward dm_loss w2 = Inl err
     \<Longrightarrow> update_dm lf dm optim_dm batch target td w = Inl err"
  by (simp add: update_dm_def)

lemma update_dm_step_fails:
  "lf dm batch target td w = Inr (dm_loss, w1) \<Longrightarrow> zero_grad optim_dm w1 = Inr w2
     \<Longrightarrow> backward dm_loss w2 = Inr w3 \<Longrightarrow> optim_step optim_dm w3 = Inl err
     \<Longrightarrow> update_dm lf dm optim_dm batch target td w = Inl err"
  by (simp add: update_dm_def)

lemma train_dm_step_fails:
  assumes b: "batch_sizes batch_size rl_batch_rate = Inr (batch_size_rl, batch_size_rand)"
    and l: "logger ''Optimizing...'' w0 = Inr wa"
    and s: "steps_per_epoch rl_traj rand_traj batch_size_rl batch_size_rand = Inr step"
    and n: "nat epoch = n1 + Suc n2"
    and e: "for_range
              (for_zip (train_step lf dyn_model optim_dm target td)
                 (random_batch rl_traj batch_size_rl step)
                 (random_batch rand_traj batch_size_rand step))
              n1 [] wa = Inr (losses1, wb)"
    and g: "random_batch rl_traj batch_size_rl step = gs1 @ g # gs2"
    and h: "random_batch rand_traj batch_size_rand step = hs1 @ h # hs2"
    and len: "length gs1 = length hs1"
    and z: "for_zip (train_step lf dyn_model optim_dm target td) gs1 hs1 losses1 wb
              = Inr (losses2, wc)"
    and d1: "g wc = Inr (rl_batch, wd)"
    and d2: "h wd = Inr (rand_batch, we)"
    and m: "merge_batch rl_batch rand_batch = Inr batch"
    and u: "update_dm lf dyn_model optim_dm batch target td we = Inl err"
  shows "train_dm lf logger rl_traj rand_traj dyn_model optim_dm epoch batch_size
           rl_batch_rate target td w0 = Inl err"
proof -
  let ?body = "train_step lf dyn_model optim_dm target td"
  let ?epoch_body = "for_zip ?body (random_batch rl_traj batch_size_rl step)
                 (random_batch rand_traj batch_size_rand step)"
  have "?body rl_batch rand_batch we = Inl err" using m u by (rule train_step_fails)
  with d1 d2 have "for_zip ?body (g # gs2) (h # hs2) losses2 wc = Inl err"
    by (rule for_zip_step_fails)
  with for_zip_prefix [OF len z, of "g # gs2" "h # hs2"]
  have "?epoch_body losses1 wb = Inl err" by (simp only: g h)
  then have "for_range ?epoch_body (Suc n2) losses1 wb = Inl err" by (rule for_range_fails)
  with for_range_prefix [OF e, of "Suc n2"]
  have "for_range ?epoch_body (nat epoch) [] wa = Inl err" by (simp only: n)
  with b l s show ?thesis by (simp add: train_dm_def)
qed

lemma batch_sizes_4_rate_0_5: "batch_sizes 4 rate_0_5 = Inr (2, 2)"
  by (simp add: rate_0_5_def float_eval)

lemma ex_update_dm_ok:
  "fail_at \<noteq> Some w \<Longrightarrow> fmlookup batch target = Some t
     \<Longrightarrow> update_dm (ex_lf fail_at) dm ex_optim batch target td w = Inr (length (rows t), Suc w)"
  by (simp add: update_dm_def ex_lf_def ex_optim_def ex_loss_def)

lemma ex_update_dm_fails:
  "update_dm (ex_lf (Some w)) dm optim_dm batch target td w
     = Inl (Raised ''loss evaluation failed'')"
  by (simp add: update_dm_def ex_lf_def)

lemma ex_train_step_ok:
  assumes "fail_at \<noteq> Some w"
  shows "train_step (ex_lf fail_at) dm ex_optim ''next_obs'' td
           (ex_traj_batch xs) (ex_traj_batch ys) w
         = Inr (length ys + length xs, Suc w)"
proof -
  have "fmlookup (ex_batch (ys @ xs)) ''next_obs'' = Some (ex_tensor (map Suc (ys @ xs)))"
    by (simp add: ex_batch_def)
  from ex_update_dm_ok [OF assms this] show ?thesis
    by (simp add: train_step_def ex_merge ex_tensor_def)
qed

text \<open>
  Claim C7. \<^verbatim>\<open>update_dm\<close> raises the very exception that the loss functional, the
  backpropagation or the optimiser step raised; and when \<^verbatim>\<open>update_dm\<close> raises in one
  step of \<^verbatim>\<open>train_dm\<close> (after \<open>n1\<close> whole epochs and the steps \<open>gs1\<close>, \<open>hs1\<close> of the
  current one went through), \<^verbatim>\<open>train_dm\<close> raises that exception and returns no result:
  nothing is caught and nothing is retried.
\<close>

theorem errors_propagate:
  "(lf dyn_model batch target td w = Inl err \<longrightarrow>
      update_dm lf dyn_model optim_dm batch target td w = Inl err)
   \<and> (lf dyn_model batch target td w = Inr (dm_loss, w1) \<and> zero_grad optim_dm w1 = Inr w2
        \<and> backward dm_loss w2 = Inl err \<longrightarrow>
      update_dm lf dyn_model optim_dm batch target td w = Inl err)
   \<and> (lf dyn_model batch target td w = Inr (dm_loss, w1) \<and> zero_grad optim_dm w1 = Inr w2
        \<and> backward dm_loss w2 = Inr w3 \<and> optim_step optim_dm w3 = Inl err \<longrightarrow>
      update_dm lf dyn_model optim_dm batch target td w = Inl err)
   \<and> (batch_sizes batch_size rl_batch_rate = Inr (batch_size_rl, batch_size_rand)
        \<and> logger ''Optimizing...'' w0 = Inr wa
        \<and> steps_per_epoch rl_traj rand_traj batch_size_rl batch_size_rand = Inr step
        \<and> nat epoch = n1 + Suc n2
        \<and> for_range
              (for_zip (train_step lf dyn_model optim_dm target td)
                 (random_batch rl_traj batch_size_rl step)
                 (random_batch rand_traj batch_size_rand step))
              n1 [] wa = Inr (losses1, wb)
        \<and> random_batch rl_traj batch_size_rl step = gs1 @ g # gs2
        \<and> random_batch rand_traj batch_size_rand step = hs1 @ h # hs2
        \<and> length gs1 = length hs1
        \<and> for_zip (train_step lf dyn_model optim_dm target td) gs1 hs1 losses1 wb
              = Inr (losses2, wc)
        \<and> g wc = Inr (rl_batch, wd)
        \<and> h wd = Inr (rand_batch, we)
        \<and> merge_batch rl_batch rand_batch = Inr merged
        \<and> update_dm lf dyn_model optim_dm merged target td we = Inl err \<longrightarrow>
      train_dm lf logger rl_traj rand_traj dyn_model optim_dm epoch batch_size
        rl_batch_rate target td w0 = Inl err)"
proof (intro conjI impI)
  assume "lf dyn_model batch target td w = Inl err"
  then show "update_dm lf dyn_model optim_dm batch target td w = Inl err"
    by (rule update_dm_lf_fails)
next
  assume "lf dyn_model batch target td w = Inr (dm_loss, w1) \<and> zero_grad optim_dm w1 = Inr w2
        \<and> backward dm_loss w2 = Inl err"
  then show "update_dm lf dyn_model optim_dm batch target td w = Inl err"
    by (blast intro: update_dm_backward_fails)
next
  assume "lf dyn_model batch target td w = Inr (dm_loss, w1) \<and> zero_grad optim_dm w1 = Inr w2
        \<and> backward dm_loss w2 = Inr w3 \<and> optim_step optim_dm w3 = Inl err"
  then show "update_dm lf dyn_model optim_dm batch target td w = Inl err"
    by (blast intro: update_dm_step_fails)
next
  assume a: "batch_sizes batch_size rl_batch_rate = Inr (batch_size_rl, batch_size_rand)
        \<and> logger ''Optimizing...'' w0 = Inr wa
        \<and> steps_per_epoch rl_traj rand_traj batch_size_rl batch_size_rand = Inr step
        \<and> nat epoch = n1 + Suc n2
        \<and> for_range
              (for_zip (train_step lf dyn_model optim_dm target td)
                 (random_batch rl_traj batch_size_rl step)
                 (random_batch rand_traj batch_size_rand step))
              n1 [] wa = Inr (losses1, wb)
        \<and> random_batch rl_traj batch_size_rl step = gs1 @ g # gs2
        \<and> random_batch rand_traj batch_size_rand step = hs1 @ h # hs2
        \<and> length gs1 = length hs1
        \<and> for_zip (train_step lf dyn_model optim_dm target td) gs1 hs1 losses1 wb
              = Inr (losses2, wc)
        \<and> g wc = Inr (rl_batch, wd)
        \<and> h wd = Inr (rand_batch, we)
        \<and> merge_batch rl_batch rand_batch = Inr merged
        \<and> update_dm lf dyn_model optim_dm merged target td we = Inl err"
  from a show "train_dm lf logger rl_traj rand_traj dyn_model optim_dm epoch batch_size
        rl_batch_rate target td w0 = Inl err"
    by (elim conjE) (rule train_dm_step_fails; assumption)
qed

lemma ex_for_zip_step_ok:
  "fail_at \<noteq> Some w \<Longrightarrow>
   for_zip (train_step (ex_lf fail_at) dm ex_optim ''next_obs'' td)
       (ex_draw a # gen_rl) (ex_draw b # gen_rand) dm_losses w
     = for_zip (train_step (ex_lf fail_at) dm ex_optim ''next_obs'' td)
         gen_rl gen_rand (dm_losses @ [b + a]) (Suc w)"
  by (simp add: ex_draw_def ex_train_step_ok)

lemma ex_random_batch_2: "random_batch (ex_traj n) 2 2 = [ex_draw 2, ex_draw 2]"
  by (simp add: ex_traj_def numeral_2_eq_2)

theorem errors_propagate_witness:
  "ex_lf (Some 3) () (ex_batch [1]) ''obs'' True 3 = Inl (Raised ''loss evaluation failed'')
   \<and> update_dm (ex_lf (Some 3)) () ex_optim (ex_batch [1]) ''obs'' True 3
       = Inl (Raised ''loss evaluation failed'')
   \<and> ex_bad_lf () (ex_batch [1]) ''obs'' True 0 = Inr (ex_bad_loss, 0)
   \<and> backward ex_bad_loss 0 = Inl (Raised ''backward failed'')
   \<and> update_dm ex_bad_lf () ex_optim (ex_batch [1]) ''obs'' True 0
       = Inl (Raised ''backward failed'')
   \<and> optim_step ex_bad_optim 0 = Inl (Raised ''step failed'')
   \<and> update_dm (ex_lf None) () ex_bad_optim (ex_batch [1]) ''obs'' True 0
       = Inl (Raised ''step failed'')
   \<and> batch_sizes 4 rate_0_5 = Inr (2, 2)
   \<and> steps_per_epoch (ex_traj 4) (ex_traj 4) 2 2 = Inr 2
   \<and> for_range
        (for_zip (train_step (ex_lf (Some 3)) () ex_optim ''next_obs'' True)
           (random_batch (ex_traj 4) 2 2) (random_batch (ex_traj 4) 2 2))
        1 [] 0 = Inr ([4, 4], 2)
   \<and> for_zip (train_step (ex_lf (Some 3)) () ex_optim ''next_obs'' True)
        [ex_draw 2] [ex_draw 2] [4, 4] 2 = Inr ([4, 4, 4], 3)
   \<and> update_dm (ex_lf (Some 3)) () ex_optim (ex_batch [3, 3, 3, 3]) ''next_obs'' True 3
       = Inl (Raised ''loss evaluation failed'')
   \<and> train_dm (ex_lf (Some 3)) ex_log (ex_traj 4) (ex_traj 4) () ex_optim 2 4 rate_0_5
        ''next_obs'' True 0 = Inl (Raised ''loss evaluation failed'')"
proof -
  let ?body = "train_step (ex_lf (Some 3)) () ex_optim ''next_obs'' True"
  have lf1: "ex_lf (Some 3) () (ex_batch [1]) ''obs'' True 3
      = Inl (Raised ''loss evaluation failed'')"
    by (simp add: ex_lf_def)
  have u1: "update_dm (ex_lf (Some 3)) () ex_optim (ex_batch [1]) ''obs'' True 3
       = Inl (Raised ''loss evaluation failed'')"
    by (rule errors_propagate [THEN conjunct1, THEN mp]) (rule lf1)
  have lf2: "ex_bad_lf () (ex_batch [1]) ''obs'' True 0 = Inr (ex_bad_loss, 0)"
    "zero_grad ex_optim 0 = Inr 0"
    "backward ex_bad_loss 0 = Inl (Raised ''backward failed'')"
    by (simp_all add: ex_bad_lf_def ex_optim_def ex_bad_loss_def)
  have u2: "update_dm ex_bad_lf () ex_optim (ex_batch [1]) ''obs'' True 0
       = Inl (Raised ''backward failed'')"
    by (rule errors_propagate [THEN conjunct2, THEN conjunct1, THEN mp])
      (intro conjI; rule lf2)
  have lf3: "ex_lf None () (ex_batch [1]) ''obs'' True 0 = Inr (ex_loss 1, 0)"
    "zero_grad ex_bad_optim 0 = Inr 0"
    "backward (ex_loss 1) 0 = Inr 0"
    "optim_step ex_bad_optim 0 = Inl (Raised ''step failed'')"
    by (simp_all add: ex_lf_def ex_bad_optim_def ex_loss_def ex_batch_def ex_tensor_def)
  have u3: "update_dm (ex_lf None) () ex_bad_optim (ex_batch [1]) ''obs'' True 0
       = Inl (Raised ''step failed'')"
    by (rule errors_propagate [THEN conjunct2, THEN conjunct2, THEN conjunct1, THEN mp])
      (intro conjI; rule lf3)
  have s: "steps_per_epoch (ex_traj 4) (ex_traj 4) 2 2 = Inr 2"
    by (simp add: steps_per_epoch_def py_floordiv_def ex_traj_def)
  have l: "ex_log ''Optimizing...'' 0 = Inr 0" by (simp add: ex_log_def)
  have n: "nat 2 = 1 + Suc 0" by simp
  have gs: "random_batch (ex_traj 4) 2 2 = [ex_draw 2] @ ex_draw 2 # []"
    by (simp add: ex_random_batch_2)
  have e: "for_range (for_zip ?body (random_batch (ex_traj 4) 2 2)
      (random_batch (ex_traj 4) 2 2)) 1 [] 0 = Inr ([4, 4], 2)"
    by (simp add: ex_random_batch_2 ex_for_zip_step_ok del: for_zip.simps(3))
  have z: "for_zip ?body [ex_draw 2] [ex_draw 2] [4, 4] 2 = Inr ([4, 4, 4], 3)"
    by (simp add: ex_for_zip_step_ok del: for_zip.simps(3))
  have d: "ex_draw 2 3 = Inr (ex_traj_batch [3, 3], 3)"
    by (simp add: ex_draw_def numeral_2_eq_2)
  have m: "merge_batch (ex_traj_batch [3, 3]) (ex_traj_batch [3, 3])
      = Inr (ex_batch [3, 3, 3, 3])"
    using ex_merge [of "[3, 3]" "[3, 3]"] by simp
  have u: "update_dm (ex_lf (Some 3)) () ex_optim (ex_batch [3, 3, 3, 3]) ''next_obs'' True 3
       = Inl (Raised ''loss evaluation failed'')"
    by (rule ex_update_dm_fails)
  have len: "length [ex_draw 2 :: (nat, nat) draw] = length [ex_draw 2 :: (nat, nat) draw]"
    by simp
  have t: "train_dm (ex_lf (Some 3)) ex_log (ex_traj 4) (ex_traj 4) () ex_optim 2 4 rate_0_5
        ''next_obs'' True 0 = Inl (Raised ''loss evaluation failed'')"
    by (rule errors_propagate [THEN conjunct2, THEN conjunct2, THEN conjunct2, THEN mp])
      (intro conjI; (rule batch_sizes_4_rate_0_5 l s n e gs z d m u len))
  from lf1 u1 lf2 u2 lf3 u3 batch_sizes_4_rate_0_5 s e z u t show ?thesis by simp
qed

end
